theory Spec2Isabelle
  imports Complex_Main "HOL-Library.Word"
begin

section \<open>Python and numpy values\<close>

text \<open>
  The exceptions the modelled code can raise.
\<close>

datatype error = IndexError | TypeError | AttributeError | KeyError | OverflowError

text \<open>
  A numpy \<open>float64\<close>. Finite values are idealised as reals (no rounding error, no
  overflow); the two infinities and NaN are kept, because numpy's float division by zero
  does not raise: it yields \<open>inf\<close> or \<open>nan\<close> (with a warning) and goes on. The zero
  of the model is the positive zero, the only zero the modelled code divides by
  (\<open>steps - 1.0\<close> with \<open>steps = 1\<close>, and the square root of \<open>0\<close>).
\<close>

datatype npfloat = Fin real | PInf | NInf | NaN

definition inf_of_sign :: "real \<Rightarrow> npfloat" where
  "inf_of_sign a = (if a = 0 then NaN else if 0 < a then PInf else NInf)"

fun fneg :: "npfloat \<Rightarrow> npfloat" where
  "fneg (Fin a) = Fin (- a)"
| "fneg PInf = NInf"
| "fneg NInf = PInf"
| "fneg NaN = NaN"

fun fadd :: "npfloat \<Rightarrow> npfloat \<Rightarrow> npfloat" where
  "fadd (Fin a) (Fin b) = Fin (a + b)"
| "fadd (Fin a) PInf = PInf"
| "fadd (Fin a) NInf = NInf"
| "fadd PInf (Fin b) = PInf"
| "fadd NInf (Fin b) = NInf"
| "fadd PInf PInf = PInf"
| "fadd NInf NInf = NInf"
| "fadd PInf NInf = NaN"
| "fadd NInf PInf = NaN"
| "fadd NaN y = NaN"
| "fadd x NaN = NaN"

definition fsub :: "npfloat \<Rightarrow> npfloat \<Rightarrow> npfloat" where
  "fsub x y = fadd x (fneg y)"

fun fmul :: "npfloat \<Rightarrow> npfloat \<Rightarrow> npfloat" where
  "fmul (Fin a) (Fin b) = Fin (a * b)"
| "fmul (Fin a) PInf = inf_of_sign a"
| "fmul (Fin a) NInf = inf_of_sign (- a)"
| "fmul PInf (Fin b) = inf_of_sign b"
| "fmul NInf (Fin b) = inf_of_sign (- b)"
| "fmul PInf PInf = PInf"
| "fmul NInf NInf = PInf"
| "fmul PInf NInf = NInf"
| "fmul NInf PInf = NInf"
| "fmul NaN y = NaN"
| "fmul x NaN = NaN"

fun fdiv :: "npfloat \<Rightarrow> npfloat \<Rightarrow> npfloat" where
  "fdiv (Fin a) (Fin b) = (if b = 0 then inf_of_sign a else Fin (a / b))"
| "fdiv (Fin a) PInf = Fin 0"
| "fdiv (Fin a) NInf = Fin 0"
| "fdiv PInf (Fin b) = (if 0 \<le> b then PInf else NInf)"
| "fdiv NInf (Fin b) = (if 0 \<le> b then NInf else PInf)"
| "fdiv PInf PInf = NaN"
| "fdiv NInf NInf = NaN"
| "fdiv PInf NInf = NaN"
| "fdiv NInf PInf = NaN"
| "fdiv NaN y = NaN"
| "fdiv x NaN = NaN"

text \<open>\<open>np.round\<close> rounds to the nearest integer, a tie to the even one.\<close>

definition round_half_even :: "real \<Rightarrow> int" where
  "round_half_even x =
     (let f = \<lfloor>x\<rfloor>; d = x - of_int f
      in if d < 1 / 2 then f else if 1 / 2 < d then f + 1
         else if even f then f else f + 1)"

fun np_round :: "npfloat \<Rightarrow> npfloat" where
  "np_round (Fin x) = Fin (of_int (round_half_even x))"
| "np_round PInf = PInf"
| "np_round NInf = NInf"
| "np_round NaN = NaN"

text \<open>
  \<open>np.sqrt\<close> of a Python integer. numpy takes an integer that fits 64 bits, signed
  or unsigned, as a machine integer; a larger one becomes a Python object, which has no
  square root, and \<open>np.sqrt\<close> raises TypeError.
\<close>

definition np_sqrt :: "int \<Rightarrow> error + npfloat" where
  "np_sqrt n =
     (if n < - (2 ^ 63) \<or> 2 ^ 64 \<le> n then Inl TypeError
      else if n < 0 then Inr NaN
      else Inr (Fin (sqrt (of_int n))))"

text \<open>
  The conversion of a Python integer that meets a float in an arithmetic expression,
  here \<open>steps - 1.0\<close>. An integer that rounds to \<open>2 ^ 1024\<close> or beyond, which is every
  one from \<open>2 ^ 1024 - 2 ^ 970\<close> on, raises OverflowError.
\<close>

definition float_limit :: int where
  "float_limit = 2 ^ 1024 - 2 ^ 970"

definition py_float :: "int \<Rightarrow> error + npfloat" where
  "py_float n = (if float_limit \<le> \<bar>n\<bar> then Inl OverflowError else Inr (Fin (of_int n)))"

text \<open>
  A two-dimensional numpy array: its shape and its elements in row-major order.
\<close>

record 'a ndarray =
  dims :: "nat \<times> nat"
  buf :: "'a list"

type_synonym frame = "8 word ndarray"

definition pixel :: "'a ndarray \<Rightarrow> nat \<Rightarrow> nat \<Rightarrow> 'a" where
  "pixel a i j = buf a ! (i * snd (dims a) + j)"

text \<open>\<open>np.uint8(np.zeros(shape))\<close>.\<close>

definition zeros :: "nat \<times> nat \<Rightarrow> frame" where
  "zeros sh = \<lparr>dims = sh, buf = replicate (fst sh * snd sh) 0\<rparr>"

text \<open>
  Modelled from the spec: \<open>circle_level_set\<close> comes from the morphsnakes package and is
  not part of the sources. The spec gives the frame as value 1 inside a filled disc of
  radius \<open>r\<close> around the centre and 0 elsewhere; morphsnakes computes
  \<open>phi = radius - sqrt(sum((grid - center)**2))\<close> and returns \<open>phi > 0\<close>. A comparison
  with NaN or with an infinite distance is false, so a centre that is not finite gives
  the all-zero frame.
\<close>

fun in_disc :: "npfloat \<times> npfloat \<Rightarrow> int \<Rightarrow> nat \<Rightarrow> nat \<Rightarrow> bool" where
  "in_disc (Fin c0, Fin c1) r i j =
     (0 < real_of_int r - sqrt ((real i - c0)\<^sup>2 + (real j - c1)\<^sup>2))"
| "in_disc c r i j = False"

definition circle_level_set :: "nat \<times> nat \<Rightarrow> npfloat \<times> npfloat \<Rightarrow> int \<Rightarrow> frame" where
  "circle_level_set sh c r =
     \<lparr>dims = sh,
      buf = map (\<lambda>k. if in_disc c r (k div snd sh) (k mod snd sh) then 1 else 0)
                [0..<fst sh * snd sh]\<rparr>"

section \<open>MaskInitialiser\<close>

text \<open>
  The plugin's parameters, and the attributes that \<open>pre_process\<close> sets on the plugin.
  The field \<open>radius\<close> is the attribute \<open>self.circle_radius\<close>, the name
  \<open>circle_radius\<close> being the parameter's; \<open>self.init_coordinates\<close> is read only
  by \<open>pre_process\<close> itself and is not kept.
\<close>

record parameters =
  init_coordinates :: "int list"
  circle_radius :: int

record mask_state =
  coordX0 :: int
  coordY0 :: int
  coordZ0 :: int
  coordX1 :: int
  coordY1 :: int
  coordZ1 :: int
  radius :: int
  distance :: npfloat
  d_dist :: npfloat
  d_step :: npfloat

text \<open>
  \<open>pre_process\<close>: reading \<open>init_coordinates[0]\<close> to \<open>[5]\<close> raises IndexError on a
  shorter list. The coordinates are Python integers, which have no bound: \<open>np.sqrt\<close>
  raises TypeError when the sum of the squares does not fit 64 bits, and after it
  \<open>steps - 1.0\<close> raises OverflowError when \<open>steps\<close> is beyond the floats. The
  division \<open>self.distance/(steps - 1.0)\<close> is numpy's.
\<close>

definition pre_process :: "parameters \<Rightarrow> error + mask_state" where
  "pre_process p =
     (let cs = init_coordinates p in
      if length cs < 6 then Inl IndexError
      else
        let x0 = cs ! 0; y0 = cs ! 1; z0 = cs ! 2;
            x1 = cs ! 3; y1 = cs ! 4; z1 = cs ! 5;
            steps = z1 - z0
        in (case np_sqrt ((x1 - x0)\<^sup>2 + (y1 - y0)\<^sup>2) of
              Inl e \<Rightarrow> Inl e
            | Inr len \<Rightarrow>
                (case py_float steps of
                   Inl e \<Rightarrow> Inl e
                 | Inr fsteps \<Rightarrow>
                     let dd = fdiv len (fsub fsteps (Fin 1))
                     in Inr \<lparr>coordX0 = x0, coordY0 = y0, coordZ0 = z0,
                             coordX1 = x1, coordY1 = y1, coordZ1 = z1,
                             radius = circle_radius p,
                             distance = len, d_dist = dd, d_step = dd\<rparr>)))"

text \<open>
  The value bound to \<open>x_t\<close> or \<open>y_t\<close>: the one-element array that \<open>np.round\<close> returns,
  or the Python integer \<open>self.coordX0\<close> that replaces it when both endpoints agree.
  Subscripting the array gives its element; subscripting an integer raises TypeError.
\<close>

datatype coord = NpArr npfloat | PyInt int

fun subscript0 :: "coord \<Rightarrow> error + npfloat" where
  "subscript0 (NpArr v) = Inr v"
| "subscript0 (PyInt n) = Inl TypeError"

text \<open>
  The frame index comes from \<open>get_current_frame_idx\<close>, which is not part of the
  sources; the subscripts \<open>y_t[0]\<close> and \<open>x_t[0]\<close> show that it is an array, and with
  the granularity \<open>single\<close> it has the one element \<open>index_current\<close>.
\<close>

definition new_d_step :: "mask_state \<Rightarrow> int \<Rightarrow> npfloat" where
  "new_d_step st index_current =
     fmul (Fin (of_int (index_current - coordZ0 st))) (d_dist st)"

definition interp_t :: "mask_state \<Rightarrow> int \<Rightarrow> npfloat" where
  "interp_t st index_current = fdiv (new_d_step st index_current) (distance st)"

definition interp :: "npfloat \<Rightarrow> int \<Rightarrow> int \<Rightarrow> npfloat" where
  "interp t c0 c1 =
     np_round (fadd (fmul (fsub (Fin 1) t) (Fin (of_int c0))) (fmul t (Fin (of_int c1))))"

definition x_t :: "mask_state \<Rightarrow> int \<Rightarrow> coord" where
  "x_t st index_current =
     (if coordX0 st = coordX1 st then PyInt (coordX0 st)
      else NpArr (interp (interp_t st index_current) (coordX0 st) (coordX1 st)))"

definition y_t :: "mask_state \<Rightarrow> int \<Rightarrow> coord" where
  "y_t st index_current =
     (if coordY0 st = coordY1 st then PyInt (coordY0 st)
      else NpArr (interp (interp_t st index_current) (coordY0 st) (coordY1 st)))"

text \<open>
  The centre handed to \<open>circle_level_set\<close>: \<open>(np.round(y_t[0]), np.round(x_t[0]))\<close>,
  the subscripts evaluated from left to right.
\<close>

definition centre :: "mask_state \<Rightarrow> int \<Rightarrow> error + npfloat \<times> npfloat" where
  "centre st index_current =
     (case subscript0 (y_t st index_current) of
        Inl e \<Rightarrow> Inl e
      | Inr y \<Rightarrow>
          (case subscript0 (x_t st index_current) of
             Inl e \<Rightarrow> Inl e
           | Inr x \<Rightarrow> Inr (np_round y, np_round x)))"

text \<open>
  \<open>process_frames\<close> returns the list of frames or the exception raised, and the plugin
  state it leaves: the in-range branch assigns \<open>self.d_step\<close> before anything can raise.
  \<open>data[0]\<close> raises IndexError on an empty list.
\<close>

definition process_frames ::
  "mask_state \<Rightarrow> int \<Rightarrow> 'a ndarray list \<Rightarrow> (error + frame list) \<times> mask_state" where
  "process_frames st index_current data =
     (if coordZ0 st \<le> index_current \<and> index_current \<le> coordZ1 st then
        let st' = st\<lparr>d_step := new_d_step st index_current\<rparr> in
        (case data of
           [] \<Rightarrow> Inl IndexError
         | d # ds \<Rightarrow>
             (case centre st index_current of
                Inl e \<Rightarrow> Inl e
              | Inr c \<Rightarrow> Inr [circle_level_set (dims d) c (radius st)]),
         st')
      else
        (case data of
           [] \<Rightarrow> Inl IndexError
         | d # ds \<Rightarrow> Inr [zeros (dims d)],
         st))"

definition nInput_datasets :: nat where
  "nInput_datasets = 1"

definition nOutput_datasets :: nat where
  "nOutput_datasets = 1"

text \<open>
  The driver runs \<open>pre_process\<close> once and then \<open>process_frames\<close> frame by frame.
  \<open>run_centre\<close> and \<open>run_frame\<close> give what a plugin configured with \<open>p\<close> computes
  at frame \<open>z\<close>; \<open>default_parameters\<close> are the defaults of the docstring.
\<close>

definition default_parameters :: parameters where
  "default_parameters = \<lparr>init_coordinates = [10, 10, 0, 20, 20, 20], circle_radius = 5\<rparr>"

definition run_centre :: "parameters \<Rightarrow> int \<Rightarrow> error + npfloat \<times> npfloat" where
  "run_centre p z = (case pre_process p of Inl e \<Rightarrow> Inl e | Inr st \<Rightarrow> centre st z)"

definition run_frame :: "parameters \<Rightarrow> int \<Rightarrow> 'a ndarray list \<Rightarrow> error + frame list" where
  "run_frame p z data =
     (case pre_process p of Inl e \<Rightarrow> Inl e | Inr st \<Rightarrow> fst (process_frames st z data))"

text \<open>
  The plugin state after a sequence of calls of \<open>process_frames\<close>, each given by its
  frame index and its input list.
\<close>

definition after_frames :: "mask_state \<Rightarrow> (int \<times> 'a ndarray list) list \<Rightarrow> mask_state" where
  "after_frames st calls = foldl (\<lambda>s c. snd (process_frames s (fst c) (snd c))) st calls"

text \<open>
  The state that \<open>pre_process\<close> leaves for the default parameters (lemma
  \<open>pre_process_default\<close>), and the parameters and state of the scenario with the
  endpoints \<open>(10,10,0)\<close> and \<open>(20,20,10)\<close> and radius 5.
\<close>

definition default_state :: mask_state where
  "default_state =
     \<lparr>coordX0 = 10, coordY0 = 10, coordZ0 = 0, coordX1 = 20, coordY1 = 20, coordZ1 = 20,
      radius = 5, distance = Fin (sqrt 200), d_dist = Fin (sqrt 200 / 19),
      d_step = Fin (sqrt 200 / 19)\<rparr>"

definition scenario_parameters :: parameters where
  "scenario_parameters = \<lparr>init_coordinates = [10, 10, 0, 20, 20, 10], circle_radius = 5\<rparr>"

definition scenario_state :: mask_state where
  "scenario_state =
     \<lparr>coordX0 = 10, coordY0 = 10, coordZ0 = 0, coordX1 = 20, coordY1 = 20, coordZ1 = 10,
      radius = 5, distance = Fin (sqrt 200), d_dist = Fin (sqrt 200 / 9),
      d_step = Fin (sqrt 200 / 9)\<rparr>"

text \<open>
  Three more parameter sets: a single step in \<open>z\<close> (\<open>z1 - z0 = 1\<close>), endpoints with the
  same \<open>x\<close>, and an empty range (\<open>z1 < z0\<close>).
\<close>

definition single_plane_parameters :: parameters where
  "single_plane_parameters = \<lparr>init_coordinates = [10, 10, 0, 20, 20, 1], circle_radius = 5\<rparr>"

definition vertical_parameters :: parameters where
  "vertical_parameters = \<lparr>init_coordinates = [10, 10, 0, 10, 20, 20], circle_radius = 5\<rparr>"

definition reversed_parameters :: parameters where
  "reversed_parameters = \<lparr>init_coordinates = [10, 10, 20, 20, 20, 0], circle_radius = 5\<rparr>"

text \<open>The state that \<open>pre_process\<close> leaves for the empty range.\<close>

definition reversed_state :: mask_state where
  "reversed_state =
     \<lparr>coordX0 = 10, coordY0 = 10, coordZ0 = 20, coordX1 = 20, coordY1 = 20, coordZ1 = 0,
      radius = 5, distance = Fin (sqrt 200), d_dist = Fin (sqrt 200 / (- 21)),
      d_step = Fin (sqrt 200 / (- 21))\<rparr>"

section \<open>BaseLoader\<close>

text \<open>
  Modelled from the spec: the tree of named, attributed nodes is read through h5py, which
  is not part of the sources. A group has a full path name, attributes and named members;
  a dataset has a name, attributes and a leaf value. As in h5py, only a group has
  \<open>keys()\<close> and \<open>visititems\<close>, only a dataset has \<open>.value\<close>, and a missing member
  raises KeyError.
\<close>

datatype node =
    Group (name: string) (attrs: "(string \<times> string) list") (members: "(string \<times> node) list")
  | Dataset (name: string) (attrs: "(string \<times> string) list") (dvalue: string)

fun keys :: "node \<Rightarrow> error + string list" where
  "keys (Group n a ms) = Inr (map fst ms)"
| "keys (Dataset n a v) = Inl AttributeError"

fun getvalue :: "node \<Rightarrow> error + string" where
  "getvalue (Dataset n a v) = Inr v"
| "getvalue (Group n a ms) = Inl AttributeError"

fun child :: "node \<Rightarrow> string \<Rightarrow> error + node" where
  "child (Group n a ms) k = (case map_of ms k of None \<Rightarrow> Inl KeyError | Some c \<Rightarrow> Inr c)"
| "child (Dataset n a v) k = Inl KeyError"

text \<open>Python's \<open>str.split(sep)\<close> for a one-character separator.\<close>

fun split_on :: "char \<Rightarrow> string \<Rightarrow> string list" where
  "split_on c [] = [[]]"
| "split_on c (x # xs) =
     (if x = c then [] # split_on c xs
      else (case split_on c xs of [] \<Rightarrow> [[x]] | w # ws \<Rightarrow> (x # w) # ws))"

text \<open>\<open>obj[path]\<close>: the path is followed member by member, empty segments skipped.\<close>

fun walk :: "node \<Rightarrow> string list \<Rightarrow> error + node" where
  "walk obj [] = Inr obj"
| "walk obj (k # ks) = (case child obj k of Inl e \<Rightarrow> Inl e | Inr c \<Rightarrow> walk c ks)"

definition getitem :: "node \<Rightarrow> string \<Rightarrow> error + node" where
  "getitem obj path = walk obj (filter (\<lambda>s. s \<noteq> []) (split_on CHR ''/'' path))"

text \<open>
  The objects \<open>visititems\<close> hands to its callback: every descendant of the group once,
  a member before its own members. The callbacks of the loader return nothing, so the
  traversal is never cut short; it ends early only when a callback raises.
\<close>

fun descendants :: "node \<Rightarrow> node list" where
  "descendants (Group n a ms) = concat (map (\<lambda>m. snd m # descendants (snd m)) ms)"
| "descendants (Dataset n a v) = []"

text \<open>
  The attributes of a loader instance. \<open>__init__\<close> assigns \<open>hits\<close> and \<open>application\<close>
  and then calls the constructor of \<open>Plugin\<close>, which is not part of the sources.
  \<open>get_NXdata\<close> reads an attribute \<open>nxdata\<close> that \<open>BaseLoader\<close> never assigns:
  the field is \<open>None\<close> when the attribute does not exist, and the constructor takes
  as a parameter what the rest of the class hierarchy leaves there.
\<close>

record base_loader =
  hits :: "node list"
  application :: "string option"
  nxdata :: "node list option"

definition BaseLoader_init :: "node list option \<Rightarrow> base_loader" where
  "BaseLoader_init nxd = \<lparr>hits = [], application = None, nxdata = nxd\<rparr>"

fun visit_all ::
  "(base_loader \<Rightarrow> node \<Rightarrow> error + base_loader) \<Rightarrow> node list \<Rightarrow> base_loader
     \<Rightarrow> error + base_loader" where
  "visit_all f [] self = Inr self"
| "visit_all f (obj # objs) self =
     (case f self obj of Inl e \<Rightarrow> Inl e | Inr self' \<Rightarrow> visit_all f objs self')"

fun visititems ::
  "node \<Rightarrow> (base_loader \<Rightarrow> node \<Rightarrow> error + base_loader) \<Rightarrow> base_loader
     \<Rightarrow> error + base_loader" where
  "visititems (Group n a ms) f self = visit_all f (descendants (Group n a ms)) self"
| "visititems (Dataset n a v) f self = Inl AttributeError"

text \<open>
  The nested conditions of \<open>_visit_NXapp\<close>: whether the object is appended, or the
  exception that \<open>obj.keys()\<close> or \<open>.value\<close> raises.
\<close>

definition NXapp_hit :: "string option \<Rightarrow> node \<Rightarrow> error + bool" where
  "NXapp_hit app obj =
     (case map_of (attrs obj) ''NX_class'' of
        None \<Rightarrow> Inr False
      | Some c \<Rightarrow>
          if c = ''NXentry'' \<or> c = ''NXsubentry'' then
            (case keys obj of
               Inl e \<Rightarrow> Inl e
             | Inr ks \<Rightarrow>
                 if ''definition'' \<in> set ks then
                   (case child obj ''definition'' of
                      Inl e \<Rightarrow> Inl e
                    | Inr d \<Rightarrow>
                        (case getvalue d of
                           Inl e \<Rightarrow> Inl e
                         | Inr v \<Rightarrow> Inr (Some v = app)))
                 else Inr False)
          else Inr False)"

definition visit_NXapp :: "base_loader \<Rightarrow> node \<Rightarrow> error + base_loader" where
  "visit_NXapp self obj =
     (case NXapp_hit (application self) obj of
        Inl e \<Rightarrow> Inl e
      | Inr b \<Rightarrow> Inr (if b then self\<lparr>hits := hits self @ [obj]\<rparr> else self))"

definition get_NXapp ::
  "base_loader \<Rightarrow> string \<Rightarrow> node \<Rightarrow> string \<Rightarrow> error + node list \<times> base_loader" where
  "get_NXapp self ltype nx_file entry =
     (let self1 = self\<lparr>application := Some ltype\<rparr> in
      case getitem nx_file entry of
        Inl e \<Rightarrow> Inl e
      | Inr grp \<Rightarrow>
          (case visititems grp visit_NXapp self1 of
             Inl e \<Rightarrow> Inl e
           | Inr self2 \<Rightarrow> Inr (hits self2, self2)))"

definition NXdata_hit :: "node \<Rightarrow> bool" where
  "NXdata_hit obj =
     (case map_of (attrs obj) ''NX_class'' of None \<Rightarrow> False | Some c \<Rightarrow> c = ''NXdata'')"

definition visit_NXdata :: "base_loader \<Rightarrow> node \<Rightarrow> error + base_loader" where
  "visit_NXdata self obj =
     Inr (if NXdata_hit obj then self\<lparr>hits := hits self @ [obj]\<rparr> else self)"

text \<open>
  The two loops of \<open>get_NXdata\<close>. The condition is
  \<open>detector in nxdata.keys() or detector in str(nxdata.name).split('/')\<close>; the outer
  loop reads \<open>self.nxdata\<close> afresh for every detector.
\<close>

definition detector_hit :: "string \<Rightarrow> node \<Rightarrow> error + bool" where
  "detector_hit detector obj =
     (case keys obj of
        Inl e \<Rightarrow> Inl e
      | Inr ks \<Rightarrow> Inr (detector \<in> set ks \<or> detector \<in> set (split_on CHR ''/'' (name obj))))"

fun scan_nxdata :: "string \<Rightarrow> node list \<Rightarrow> base_loader \<Rightarrow> error + base_loader" where
  "scan_nxdata detector [] self = Inr self"
| "scan_nxdata detector (obj # objs) self =
     (case detector_hit detector obj of
        Inl e \<Rightarrow> Inl e
      | Inr b \<Rightarrow>
          scan_nxdata detector objs (if b then self\<lparr>hits := hits self @ [obj]\<rparr> else self))"

fun scan_detectors :: "string list \<Rightarrow> base_loader \<Rightarrow> error + base_loader" where
  "scan_detectors [] self = Inr self"
| "scan_detectors (detector # detectors) self =
     (case nxdata self of
        None \<Rightarrow> Inl AttributeError
      | Some objs \<Rightarrow>
          (case scan_nxdata detector objs self of
             Inl e \<Rightarrow> Inl e
           | Inr self' \<Rightarrow> scan_detectors detectors self'))"

definition get_NXdata ::
  "base_loader \<Rightarrow> node \<Rightarrow> string list \<Rightarrow> error + node list \<times> base_loader" where
  "get_NXdata self nx_file detector_list =
     (case getitem nx_file ''/'' of
        Inl e \<Rightarrow> Inl e
      | Inr grp \<Rightarrow>
          (case visititems grp visit_NXdata self of
             Inl e \<Rightarrow> Inl e
           | Inr self1 \<Rightarrow>
               (case scan_detectors detector_list self1 of
                  Inl e \<Rightarrow> Inl e
                | Inr self2 \<Rightarrow> Inr (hits self2, self2))))"

text \<open>
  What the attribute \<open>nxdata\<close> holds for the inner loop of \<open>get_NXdata\<close>, when that
  loop runs to its end.
\<close>

definition own_nxdata :: "base_loader \<Rightarrow> node list" where
  "own_nxdata self = (case nxdata self of None \<Rightarrow> [] | Some objs \<Rightarrow> objs)"

text \<open>
  The named-group search in the words of the specification: the data-class nodes are
  collected unfiltered; then, for each detector name, every collected node that has the
  name as a direct child key or as a segment of its full name is appended once more.
\<close>

definition child_keys :: "node \<Rightarrow> string list" where
  "child_keys obj = (case obj of Group n a ms \<Rightarrow> map fst ms | Dataset n a v \<Rightarrow> [])"

definition spec_named_groups :: "node \<Rightarrow> string list \<Rightarrow> node list" where
  "spec_named_groups nx_file detector_list =
     (let collected = filter NXdata_hit (descendants nx_file)
      in collected @ concat (map (\<lambda>detector.
           filter (\<lambda>obj. detector \<in> set (child_keys obj) \<or>
                          detector \<in> set (split_on CHR ''/'' (name obj))) collected)
           detector_list))"

text \<open>
  Example files: an entry with an STXM sub-entry and a detector group, and an entry
  with no members at all.
\<close>

definition stxm_subentry :: node where
  "stxm_subentry = Group ''/entry1/stxm'' [(''NX_class'', ''NXsubentry'')]
     [(''definition'', Dataset ''/entry1/stxm/definition'' [] ''NXstxm'')]"

definition det_group :: node where
  "det_group = Group ''/entry1/det'' [(''NX_class'', ''NXdata'')]
     [(''data'', Dataset ''/entry1/det/data'' [] ''0'')]"

definition example_entry :: node where
  "example_entry = Group ''/entry1'' [(''NX_class'', ''NXentry'')]
     [(''stxm'', stxm_subentry), (''det'', det_group)]"

definition example_file :: node where
  "example_file = Group ''/'' [] [(''entry1'', example_entry)]"

definition bare_file :: node where
  "bare_file = Group ''/'' [] [(''entry1'', Group ''/entry1'' [(''NX_class'', ''NXentry'')] [])]"

text \<open>The loader after \<open>get_NXapp\<close> has found the STXM sub-entry of the example file.\<close>

definition loader_after_stxm :: base_loader where
  "loader_after_stxm =
     \<lparr>hits = [stxm_subentry], application = Some ''NXstxm'', nxdata = None\<rparr>"

section \<open>Properties of the numpy model\<close>

lemma round_half_even_of_int [simp]: "round_half_even (of_int k) = k"
  by (simp add: round_half_even_def)

lemma round_half_even_numeral [simp]: "round_half_even (numeral n) = numeral n"
  using round_half_even_of_int [of "numeral n"] by simp

lemma np_round_idem [simp]: "np_round (np_round v) = np_round v"
  by (cases v) simp_all

lemma index_in_buf:
  assumes "i < (h::nat)" "j < (w::nat)"
  shows "i * w + j < h * w"
proof -
  have "i * w + j < i * w + w" using assms by simp
  also have "\<dots> = Suc i * w" by simp
  also have "\<dots> \<le> h * w" using assms by (intro mult_le_mono1) simp
  finally show ?thesis .
qed

lemma pixel_circle_level_set:
  assumes "i < h" "j < w"
  shows "pixel (circle_level_set (h, w) c r) i j = (if in_disc c r i j then 1 else 0)"
  using assms index_in_buf [OF assms]
  by (simp add: pixel_def circle_level_set_def)

lemma pixel_zeros:
  assumes "i < h" "j < w"
  shows "pixel (zeros (h, w)) i j = 0"
  using index_in_buf [OF assms] by (simp add: pixel_def zeros_def)

section \<open>Properties of MaskInitialiser\<close>

lemma float_limit_above_64_bits: "2 ^ 64 \<le> float_limit"
proof -
  have "(2::int) ^ 1024 = 2 ^ 970 * 2 ^ 54" by (simp add: power_add [symmetric])
  then have "float_limit = 2 ^ 970 * (2 ^ 54 - 1)" by (simp add: float_limit_def algebra_simps)
  moreover have "(2::int) ^ 64 * 1 \<le> 2 ^ 970 * (2 ^ 54 - 1)"
    by (intro mult_mono power_increasing) simp_all
  ultimately show ?thesis by simp
qed

lemma py_float_small: "\<bar>n\<bar> < 2 ^ 64 \<Longrightarrow> py_float n = Inr (Fin (of_int n))"
  using float_limit_above_64_bits by (simp add: py_float_def)

lemma np_sqrt_small: "0 \<le> n \<Longrightarrow> n < 2 ^ 64 \<Longrightarrow> np_sqrt n = Inr (Fin (sqrt (of_int n)))"
  by (simp add: np_sqrt_def)

lemma pre_process_six_general:
  assumes "(x1 - x0)\<^sup>2 + (y1 - y0)\<^sup>2 < 2 ^ 64" and "\<bar>z1 - z0\<bar> < float_limit"
  shows "pre_process \<lparr>init_coordinates = [x0, y0, z0, x1, y1, z1], circle_radius = r\<rparr> =
     Inr \<lparr>coordX0 = x0, coordY0 = y0, coordZ0 = z0, coordX1 = x1, coordY1 = y1, coordZ1 = z1,
          radius = r, distance = Fin (sqrt (of_int ((x1 - x0)\<^sup>2 + (y1 - y0)\<^sup>2))),
          d_dist = fdiv (Fin (sqrt (of_int ((x1 - x0)\<^sup>2 + (y1 - y0)\<^sup>2))))
                        (Fin (of_int (z1 - z0) - 1)),
          d_step = fdiv (Fin (sqrt (of_int ((x1 - x0)\<^sup>2 + (y1 - y0)\<^sup>2))))
                        (Fin (of_int (z1 - z0) - 1))\<rparr>"
proof -
  have "0 \<le> (x1 - x0)\<^sup>2 + (y1 - y0)\<^sup>2" by simp
  then have sq: "np_sqrt ((x1 - x0)\<^sup>2 + (y1 - y0)\<^sup>2) =
                   Inr (Fin (sqrt (of_int ((x1 - x0)\<^sup>2 + (y1 - y0)\<^sup>2))))"
    using assms(1) by (rule np_sqrt_small)
  have fl: "py_float (z1 - z0) = Inr (Fin (of_int (z1 - z0)))"
    using assms(2) by (simp add: py_float_def)
  show ?thesis
    by (simp add: pre_process_def Let_def sq fl fsub_def del: of_int_diff of_int_add of_int_power)
qed

lemma pre_process_Inr_bounds:
  assumes "pre_process \<lparr>init_coordinates = [x0, y0, z0, x1, y1, z1], circle_radius = r\<rparr> = Inr st"
  shows "(x1 - x0)\<^sup>2 + (y1 - y0)\<^sup>2 < 2 ^ 64" and "\<bar>z1 - z0\<bar> < float_limit"
proof -
  show b: "(x1 - x0)\<^sup>2 + (y1 - y0)\<^sup>2 < 2 ^ 64"
  proof (rule ccontr)
    assume "\<not> (x1 - x0)\<^sup>2 + (y1 - y0)\<^sup>2 < 2 ^ 64"
    then have "np_sqrt ((x1 - x0)\<^sup>2 + (y1 - y0)\<^sup>2) = Inl TypeError"
      by (simp add: np_sqrt_def)
    then have "pre_process \<lparr>init_coordinates = [x0, y0, z0, x1, y1, z1], circle_radius = r\<rparr> =
                 Inl TypeError"
      by (simp add: pre_process_def Let_def)
    with assms show False by simp
  qed
  show "\<bar>z1 - z0\<bar> < float_limit"
  proof (rule ccontr)
    assume "\<not> \<bar>z1 - z0\<bar> < float_limit"
    then have "py_float (z1 - z0) = Inl OverflowError" by (simp add: py_float_def)
    then have "\<exists>e. pre_process \<lparr>init_coordinates = [x0, y0, z0, x1, y1, z1],
                   circle_radius = r\<rparr> = Inl e"
      by (simp add: pre_process_def Let_def split: sum.splits)
    with assms show False by auto
  qed
qed

lemma pre_process_raises_TypeError:
  assumes "2 ^ 64 \<le> (x1 - x0)\<^sup>2 + (y1 - y0)\<^sup>2"
  shows "pre_process \<lparr>init_coordinates = [x0, y0, z0, x1, y1, z1], circle_radius = r\<rparr> =
           Inl TypeError"
proof -
  have "np_sqrt ((x1 - x0)\<^sup>2 + (y1 - y0)\<^sup>2) = Inl TypeError"
    using assms by (simp add: np_sqrt_def)
  then show ?thesis by (simp add: pre_process_def Let_def)
qed

lemma pre_process_raises_OverflowError:
  assumes "(x1 - x0)\<^sup>2 + (y1 - y0)\<^sup>2 < 2 ^ 64" and "float_limit \<le> \<bar>z1 - z0\<bar>"
  shows "pre_process \<lparr>init_coordinates = [x0, y0, z0, x1, y1, z1], circle_radius = r\<rparr> =
           Inl OverflowError"
proof -
  have "0 \<le> (x1 - x0)\<^sup>2 + (y1 - y0)\<^sup>2" by simp
  then have "np_sqrt ((x1 - x0)\<^sup>2 + (y1 - y0)\<^sup>2) =
               Inr (Fin (sqrt (of_int ((x1 - x0)\<^sup>2 + (y1 - y0)\<^sup>2))))"
    using assms(1) by (rule np_sqrt_small)
  moreover have "py_float (z1 - z0) = Inl OverflowError"
    using assms(2) by (simp add: py_float_def)
  ultimately show ?thesis by (simp add: pre_process_def Let_def)
qed

lemma pre_process_six:
  assumes "(x1 - x0)\<^sup>2 + (y1 - y0)\<^sup>2 < 2 ^ 64" and "\<bar>z1 - z0\<bar> < 2 ^ 64"
  shows "pre_process \<lparr>init_coordinates = [x0, y0, z0, x1, y1, z1], circle_radius = r\<rparr> =
     Inr \<lparr>coordX0 = x0, coordY0 = y0, coordZ0 = z0, coordX1 = x1, coordY1 = y1, coordZ1 = z1,
          radius = r, distance = Fin (sqrt (of_int ((x1 - x0)\<^sup>2 + (y1 - y0)\<^sup>2))),
          d_dist = fdiv (Fin (sqrt (of_int ((x1 - x0)\<^sup>2 + (y1 - y0)\<^sup>2))))
                        (Fin (of_int (z1 - z0) - 1)),
          d_step = fdiv (Fin (sqrt (of_int ((x1 - x0)\<^sup>2 + (y1 - y0)\<^sup>2))))
                        (Fin (of_int (z1 - z0) - 1))\<rparr>"
  using assms float_limit_above_64_bits by (intro pre_process_six_general) simp_all

lemma pre_process_default: "pre_process default_parameters = Inr default_state"
  by (simp add: default_parameters_def pre_process_six default_state_def np_sqrt_def)

lemma pre_process_scenario: "pre_process scenario_parameters = Inr scenario_state"
  by (simp add: scenario_parameters_def pre_process_six scenario_state_def np_sqrt_def)

lemma process_frames_out:
  "z < coordZ0 st \<or> coordZ1 st < z \<Longrightarrow>
   process_frames st z (d # ds) = (Inr [zeros (dims d)], st)"
  by (auto simp add: process_frames_def)

lemma process_frames_state:
  "snd (process_frames st z data) =
     st\<lparr>d_step := if coordZ0 st \<le> z \<and> z \<le> coordZ1 st then new_d_step st z else d_step st\<rparr>"
  by (simp add: process_frames_def Let_def)

lemma centre_d_step: "centre (st\<lparr>d_step := v\<rparr>) z = centre st z"
  by (simp add: centre_def x_t_def y_t_def interp_t_def new_d_step_def)

lemma process_frames_d_step:
  "fst (process_frames (st\<lparr>d_step := v\<rparr>) z data) = fst (process_frames st z data)"
  by (cases data) (simp_all add: process_frames_def Let_def centre_d_step split: sum.splits)

lemma after_frames_d_step: "\<exists>v. after_frames st calls = st\<lparr>d_step := v\<rparr>"
proof (induction calls rule: rev_induct)
  case Nil
  have "after_frames st [] = st\<lparr>d_step := d_step st\<rparr>" by (simp add: after_frames_def)
  then show ?case by blast
next
  case (snoc c calls)
  then obtain v where v: "after_frames st calls = st\<lparr>d_step := v\<rparr>" by blast
  have "after_frames st (calls @ [c]) =
          snd (process_frames (after_frames st calls) (fst c) (snd c))"
    by (simp add: after_frames_def)
  also have "\<dots> = st\<lparr>d_step := if coordZ0 st \<le> fst c \<and> fst c \<le> coordZ1 st
       then new_d_step (st\<lparr>d_step := v\<rparr>) (fst c) else v\<rparr>"
    by (simp add: v process_frames_state)
  finally show ?case by blast
qed

text \<open>
  With distinct endpoints and \<open>z1 - z0 \<noteq> 1\<close> the interpolation parameter at frame \<open>z\<close>
  is \<open>(z - z0) / (z1 - z0 - 1)\<close>: it is 1 at frame \<open>z1 - 1\<close> and beyond 1 at \<open>z1\<close>.
\<close>

lemma interp_t_pre_process:
  assumes pre: "pre_process \<lparr>init_coordinates = [x0, y0, z0, x1, y1, z1], circle_radius = r\<rparr> = Inr st"
    and ne: "x0 \<noteq> x1 \<or> y0 \<noteq> y1"
    and steps: "z1 - z0 \<noteq> 1"
  shows "interp_t st z = Fin (of_int (z - z0) / (of_int (z1 - z0) - 1))"
proof -
  define n where "n = (x1 - x0)\<^sup>2 + (y1 - y0)\<^sup>2"
  have pos: "0 < n"
  proof -
    have "x1 - x0 \<noteq> 0 \<or> y1 - y0 \<noteq> 0" using ne by auto
    then have "0 < (x1 - x0)\<^sup>2 \<or> 0 < (y1 - y0)\<^sup>2" by simp
    moreover have "0 \<le> (x1 - x0)\<^sup>2" "0 \<le> (y1 - y0)\<^sup>2" by simp_all
    ultimately show ?thesis unfolding n_def by linarith
  qed
  have dpos: "sqrt (of_int n) \<noteq> 0" using pos by simp
  define s where "s = real_of_int (z1 - z0) - 1"
  have s1: "s \<noteq> 0" using steps unfolding s_def by linarith
  have "pre_process \<lparr>init_coordinates = [x0, y0, z0, x1, y1, z1], circle_radius = r\<rparr> =
      Inr \<lparr>coordX0 = x0, coordY0 = y0, coordZ0 = z0, coordX1 = x1, coordY1 = y1,
      coordZ1 = z1, radius = r, distance = Fin (sqrt (of_int n)),
      d_dist = fdiv (Fin (sqrt (of_int n))) (Fin s),
      d_step = fdiv (Fin (sqrt (of_int n))) (Fin s)\<rparr>"
    unfolding n_def s_def by (rule pre_process_six_general [OF pre_process_Inr_bounds [OF pre]])
  with pre have st: "st = \<lparr>coordX0 = x0, coordY0 = y0, coordZ0 = z0, coordX1 = x1,
      coordY1 = y1, coordZ1 = z1, radius = r, distance = Fin (sqrt (of_int n)),
      d_dist = Fin (sqrt (of_int n) / s), d_step = Fin (sqrt (of_int n) / s)\<rparr>"
    using s1 by simp
  have "interp_t st z = Fin (of_int (z - z0) / s)"
    using dpos s1 by (simp add: st interp_t_def new_d_step_def)
  then show ?thesis by (simp only: s_def)
qed

lemma interp_t_at_z1:
  assumes "pre_process \<lparr>init_coordinates = [x0, y0, z0, x1, y1, z1], circle_radius = r\<rparr> = Inr st"
    and "x0 \<noteq> x1 \<or> y0 \<noteq> y1"
    and "1 < z1 - z0"
  shows "\<exists>t. interp_t st z1 = Fin t \<and> 1 < t"
proof -
  have "z1 - z0 \<noteq> 1" using assms(3) by simp
  from interp_t_pre_process [OF assms(1,2) this, of z1]
  have "interp_t st z1 = Fin (of_int (z1 - z0) / (of_int (z1 - z0) - 1))" .
  moreover have "1 < real_of_int (z1 - z0) / (of_int (z1 - z0) - 1)"
  proof -
    have "1 < real_of_int (z1 - z0)" using assms(3) by linarith
    then show ?thesis by (simp add: field_simps)
  qed
  ultimately show ?thesis by blast
qed

text \<open>
  When \<open>process_frames\<close> returns, it returns one frame of the shape of the input
  frame; it returns unless the frame is inside the range and two endpoint coordinates
  agree (or there is no input frame).
\<close>

lemma process_frames_returns_one_frame:
  assumes "fst (process_frames st z data) = Inr fs"
  shows "\<exists>d ds f. data = d # ds \<and> fs = [f] \<and> dims f = dims d"
  using assms
  by (cases data)
     (auto simp add: process_frames_def Let_def zeros_def circle_level_set_def
           split: if_splits sum.splits)

lemma process_frames_returns_iff:
  "(\<exists>fs. fst (process_frames st z data) = Inr fs) \<longleftrightarrow>
   data \<noteq> [] \<and>
   (coordZ0 st \<le> z \<and> z \<le> coordZ1 st \<longrightarrow> coordX0 st \<noteq> coordX1 st \<and> coordY0 st \<noteq> coordY1 st)"
  by (cases data)
     (auto simp add: process_frames_def Let_def centre_def x_t_def y_t_def split: sum.splits)

lemma sqrt_26_above_5: "5 < sqrt 26"
  by (rule real_less_rsqrt) simp

lemma disc_16_not_disc_15:
  "circle_level_set (64, 64) (Fin 16, Fin 16) 5 \<noteq> circle_level_set (64, 64) (Fin 15, Fin 15) 5"
proof
  assume "circle_level_set (64, 64) (Fin 16, Fin 16) 5 =
          circle_level_set (64, 64) (Fin 15, Fin 15) 5"
  then have "pixel (circle_level_set (64, 64) (Fin 16, Fin 16) 5) 11 15 =
             pixel (circle_level_set (64, 64) (Fin 15, Fin 15) 5) 11 15"
    by simp
  moreover have "\<not> in_disc (Fin 16, Fin 16) 5 11 15" using sqrt_26_above_5 by simp
  moreover have "in_disc (Fin 15, Fin 15) 5 11 15" by simp
  ultimately show False by (simp add: pixel_circle_level_set)
qed

subsection \<open>The endpoints of the line\<close>

text \<open>
  Claim C1: with \<open>z0 < z1\<close>, the disc centre at frame \<open>z0\<close> is \<open>(x0, y0)\<close> and at frame
  \<open>z1\<close> it is \<open>(x1, y1)\<close>. The code meets the first half on the default parameters and
  misses the second: \<open>pre_process\<close> divides the distance by \<open>steps - 1\<close>, so the
  interpolation parameter at \<open>z1 = 20\<close> is \<open>20/19\<close>, the point is \<open>390/19\<close> in both
  coordinates, and the centre is \<open>(21, 21)\<close>, not \<open>(20, 20)\<close>.
\<close>

theorem centre_at_endpoints_default:
  "run_centre default_parameters 0 = Inr (Fin 10, Fin 10)
   \<and> run_centre default_parameters 20 = Inr (Fin 21, Fin 21)"
proof -
  have t0: "interp_t default_state 0 = Fin 0"
    by (simp add: interp_t_def new_d_step_def default_state_def)
  have t20: "interp_t default_state 20 = Fin (20 / 19)"
    by (simp add: interp_t_def new_d_step_def default_state_def)
  have r: "round_half_even (390 / 19) = 21" by (simp add: round_half_even_def Let_def)
  have "centre default_state 0 = Inr (Fin 10, Fin 10)"
    by (simp add: centre_def x_t_def y_t_def t0 interp_def fsub_def)
       (simp add: default_state_def)
  moreover have "centre default_state 20 = Inr (Fin 21, Fin 21)"
    by (simp add: centre_def x_t_def y_t_def t20 interp_def fsub_def)
       (simp add: default_state_def r)
  ultimately show ?thesis by (simp add: run_centre_def pre_process_default)
qed

subsection \<open>The scenario of the specification\<close>

text \<open>
  Claim C2: for the endpoints \<open>(10,10,0)\<close> and \<open>(20,20,10)\<close>, radius 5 and frames of
  shape \<open>(64,64)\<close>, frame 5 has \<open>t = 0.5\<close> and the disc around \<open>(15,15)\<close>, frame 11 is
  all zero, and frame 0 has the disc around \<open>(10,10)\<close>. The code agrees on frames 0 and
  11. At frame 5 it computes \<open>t = 5/9\<close>, because the step is the distance divided by
  \<open>steps - 1 = 9\<close>; the point \<open>140/9\<close> rounds to 16, and the frame is the disc around
  \<open>(16,16)\<close>, which is not the disc around \<open>(15,15)\<close>.
\<close>

theorem scenario_frames:
  "pre_process scenario_parameters = Inr scenario_state
   \<and> interp_t scenario_state 5 = Fin (5 / 9)
   \<and> run_frame scenario_parameters 5 [zeros (64, 64)] =
       Inr [circle_level_set (64, 64) (Fin 16, Fin 16) 5]
   \<and> circle_level_set (64, 64) (Fin 16, Fin 16) 5 \<noteq>
       circle_level_set (64, 64) (Fin 15, Fin 15) 5
   \<and> run_frame scenario_parameters 11 [zeros (64, 64)] = Inr [zeros (64, 64)]
   \<and> run_frame scenario_parameters 0 [zeros (64, 64)] =
       Inr [circle_level_set (64, 64) (Fin 10, Fin 10) 5]"
proof -
  have t5: "interp_t scenario_state 5 = Fin (5 / 9)"
    by (simp add: interp_t_def new_d_step_def scenario_state_def)
  have t0: "interp_t scenario_state 0 = Fin 0"
    by (simp add: interp_t_def new_d_step_def scenario_state_def)
  have r: "round_half_even (140 / 9) = 16" by (simp add: round_half_even_def Let_def)
  have c5: "centre scenario_state 5 = Inr (Fin 16, Fin 16)"
    by (simp add: centre_def x_t_def y_t_def t5 interp_def fsub_def)
       (simp add: scenario_state_def r)
  have c0: "centre scenario_state 0 = Inr (Fin 10, Fin 10)"
    by (simp add: centre_def x_t_def y_t_def t0 interp_def fsub_def)
       (simp add: scenario_state_def)
  have f5: "fst (process_frames scenario_state 5 [zeros (64, 64)]) =
              Inr [circle_level_set (64, 64) (Fin 16, Fin 16) 5]"
    by (simp add: process_frames_def c5 Let_def) (simp add: scenario_state_def zeros_def)
  have f0: "fst (process_frames scenario_state 0 [zeros (64, 64)]) =
              Inr [circle_level_set (64, 64) (Fin 10, Fin 10) 5]"
    by (simp add: process_frames_def c0 Let_def) (simp add: scenario_state_def zeros_def)
  have f11: "fst (process_frames scenario_state 11 [zeros (64, 64)]) = Inr [zeros (64, 64)]"
    by (simp add: process_frames_def Let_def) (simp add: scenario_state_def zeros_def)
  show ?thesis
    using t5 f5 f0 f11 disc_16_not_disc_15 by (simp add: run_frame_def pre_process_scenario)
qed

subsection \<open>A single step in z\<close>

text \<open>
  Claim C3: when \<open>z1 - z0 = 1\<close>, \<open>pre_process\<close> guards the step size or raises, and
  never divides by zero. The code has no guard: for the endpoints \<open>(10,10,0)\<close> and
  \<open>(20,20,1)\<close> it divides the distance by \<open>1 - 1.0\<close> and returns with an infinite
  step. Both frames of the range then get a centre of NaN, which gives an empty mask.
\<close>

theorem single_plane_division_by_zero:
  "pre_process single_plane_parameters =
     Inr \<lparr>coordX0 = 10, coordY0 = 10, coordZ0 = 0, coordX1 = 20, coordY1 = 20, coordZ1 = 1,
          radius = 5, distance = Fin (sqrt 200), d_dist = PInf, d_step = PInf\<rparr>
   \<and> run_centre single_plane_parameters 0 = Inr (NaN, NaN)
   \<and> run_centre single_plane_parameters 1 = Inr (NaN, NaN)"
proof -
  have pre: "pre_process single_plane_parameters =
     Inr \<lparr>coordX0 = 10, coordY0 = 10, coordZ0 = 0, coordX1 = 20, coordY1 = 20, coordZ1 = 1,
          radius = 5, distance = Fin (sqrt 200), d_dist = PInf, d_step = PInf\<rparr>"
    by (simp add: single_plane_parameters_def pre_process_six np_sqrt_def inf_of_sign_def)
  show ?thesis
    by (simp add: pre run_centre_def centre_def x_t_def y_t_def interp_t_def new_d_step_def
        interp_def fsub_def inf_of_sign_def)
qed

subsection \<open>Frames outside the range\<close>

text \<open>
  Claim C7: for every frame index strictly outside \<open>[z0, z1]\<close>, \<open>process_frames\<close>
  returns one frame of the shape of the input frame, of unsigned 8-bit elements, that
  is zero everywhere. This holds for every plugin state; \<open>d\<close> is the input frame.
\<close>

theorem out_of_range_zero_frame:
  assumes "z < coordZ0 st \<or> coordZ1 st < z"
  shows "fst (process_frames st z (d # ds)) =
           Inr [\<lparr>dims = dims d, buf = replicate (fst (dims d) * snd (dims d)) (0 :: 8 word)\<rparr>]"
  using assms by (simp add: process_frames_out zeros_def)

theorem out_of_range_zero_frame_witness:
  "(21 < coordZ0 default_state \<or> coordZ1 default_state < 21)
   \<and> fst (process_frames default_state 21 [zeros (64, 64)]) =
       Inr [\<lparr>dims = (64, 64), buf = replicate (64 * 64) (0 :: 8 word)\<rparr>]"
proof -
  have h: "21 < coordZ0 default_state \<or> coordZ1 default_state < 21"
    by (simp add: default_state_def)
  show ?thesis
    using h out_of_range_zero_frame [OF h, of "zeros (64, 64)" "[]"] by (simp add: zeros_def)
qed

subsection \<open>What a call leaves behind\<close>

text \<open>
  Claim C8: \<open>process_frames\<close> leaves all state set during \<open>pre_process\<close> unchanged, and
  its output does not depend on earlier invocations. The second half holds; the first
  fails for \<open>d_step\<close>, which a call inside the range overwrites: after frame 5 of the
  default parameters it is five times what \<open>pre_process\<close> left.
\<close>

theorem process_frames_changes_d_step:
  "d_step (snd (process_frames default_state 5 [zeros (64, 64)])) \<noteq> d_step default_state"
  by (simp add: process_frames_state default_state_def new_d_step_def)

text \<open>
  Claim C8, amended: a call changes nothing of the plugin state but \<open>d_step\<close>, which it
  sets to \<open>(z - z0) * d_dist\<close> inside the range and leaves alone outside; and the
  result of a call, frames or exception, is the same after any sequence of other calls
  as without them.
\<close>

theorem process_frames_purity:
  "snd (process_frames st z data) =
     st\<lparr>d_step := if coordZ0 st \<le> z \<and> z \<le> coordZ1 st then new_d_step st z else d_step st\<rparr>
   \<and> fst (process_frames (after_frames st calls) z data) = fst (process_frames st z data)"
proof -
  obtain v where "after_frames st calls = st\<lparr>d_step := v\<rparr>"
    using after_frames_d_step by blast
  then show ?thesis by (simp add: process_frames_state process_frames_d_step)
qed

theorem process_frames_purity_witness:
  "fst (process_frames
         (after_frames default_state [(5, [zeros (64, 64)]), (20, [zeros (64, 64)])])
         21 [zeros (64, 64)]) = Inr [zeros (64, 64)]"
  using process_frames_purity
          [of default_state 21 "[zeros (64, 64)]" "[(5, [zeros (64, 64)]), (20, [zeros (64, 64)])]"]
  by (simp add: process_frames_out default_state_def zeros_def)

subsection \<open>Endpoints with an equal coordinate\<close>

text \<open>
  Claim C9: every invocation of \<open>process_frames\<close> returns a list of exactly one frame,
  of the shape of the input frame and of unsigned 8-bit elements, inside the range as
  well as outside. Inside the range the code returns nothing when \<open>x0 = x1\<close> (or
  \<open>y0 = y1\<close>): \<open>x_t\<close> is then the Python integer \<open>self.coordX0\<close>, and \<open>x_t[0]\<close>
  raises TypeError.
\<close>

theorem process_frames_equal_x_raises:
  "run_frame vertical_parameters 5 [zeros (64, 64)] = Inl TypeError"
  by (simp add: run_frame_def vertical_parameters_def pre_process_six process_frames_def
      Let_def centre_def x_t_def y_t_def)

subsection \<open>An empty range\<close>

text \<open>
  Claim C10: when \<open>z1 < z0\<close>, every frame index gets the all-zero frame, whatever the
  step size is. Whenever \<open>pre_process\<close> has returned for such parameters, every call of
  \<open>process_frames\<close> returns the one frame of the input's shape that holds zeros only,
  also with any other values in \<open>d_dist\<close> and \<open>d_step\<close>. And \<open>pre_process\<close> does
  return when the squares of the distances in \<open>x\<close> and \<open>y\<close> sum to less than
  \<open>2 ^ 64\<close> and \<open>z0 - z1\<close> is below the limit of the floats: the divisor
  \<open>steps - 1\<close> is negative then, never zero.
\<close>

theorem empty_range_all_zero:
  assumes "init_coordinates p = [x0, y0, z0, x1, y1, z1]" and "z1 < z0"
  shows "(\<forall>st. pre_process p = Inr st \<longrightarrow>
            (\<forall>z v w. fst (process_frames (st\<lparr>d_dist := v, d_step := w\<rparr>) z (d # ds)) =
               Inr [\<lparr>dims = dims d,
                     buf = replicate (fst (dims d) * snd (dims d)) (0 :: 8 word)\<rparr>]))
    \<and> ((x1 - x0)\<^sup>2 + (y1 - y0)\<^sup>2 < 2 ^ 64 \<and> z0 - z1 < float_limit \<longrightarrow>
          (\<exists>st. pre_process p = Inr st) \<and>
          (\<forall>z. run_frame p z (d # ds) =
             Inr [\<lparr>dims = dims d,
                   buf = replicate (fst (dims d) * snd (dims d)) (0 :: 8 word)\<rparr>]))"
proof -
  let ?zero = "\<lparr>dims = dims d, buf = replicate (fst (dims d) * snd (dims d)) (0 :: 8 word)\<rparr>"
  have p: "p = \<lparr>init_coordinates = [x0, y0, z0, x1, y1, z1], circle_radius = circle_radius p\<rparr>"
    using assms(1) by (cases p) simp
  have frames: "fst (process_frames (st\<lparr>d_dist := v, d_step := w\<rparr>) z (d # ds)) = Inr [?zero]"
    if pre: "pre_process p = Inr st" for st z v w
  proof -
    have pre': "pre_process \<lparr>init_coordinates = [x0, y0, z0, x1, y1, z1],
                  circle_radius = circle_radius p\<rparr> = Inr st"
      using pre p by simp
    have "pre_process \<lparr>init_coordinates = [x0, y0, z0, x1, y1, z1],
            circle_radius = circle_radius p\<rparr> =
      Inr \<lparr>coordX0 = x0, coordY0 = y0, coordZ0 = z0, coordX1 = x1, coordY1 = y1, coordZ1 = z1,
          radius = circle_radius p,
          distance = Fin (sqrt (of_int ((x1 - x0)\<^sup>2 + (y1 - y0)\<^sup>2))),
          d_dist = fdiv (Fin (sqrt (of_int ((x1 - x0)\<^sup>2 + (y1 - y0)\<^sup>2))))
                        (Fin (of_int (z1 - z0) - 1)),
          d_step = fdiv (Fin (sqrt (of_int ((x1 - x0)\<^sup>2 + (y1 - y0)\<^sup>2))))
                        (Fin (of_int (z1 - z0) - 1))\<rparr>"
      by (rule pre_process_six_general [OF pre_process_Inr_bounds [OF pre']])
    with pre' have z: "coordZ0 st = z0" "coordZ1 st = z1" by auto
    have out: "z < coordZ0 (st\<lparr>d_dist := v, d_step := w\<rparr>) \<or>
               coordZ1 (st\<lparr>d_dist := v, d_step := w\<rparr>) < z"
      using assms(2) z by auto
    show ?thesis
      using process_frames_out [OF out, of d ds] by (simp add: zeros_def)
  qed
  have returns: "\<exists>st. pre_process p = Inr st"
    if b: "(x1 - x0)\<^sup>2 + (y1 - y0)\<^sup>2 < 2 ^ 64" "z0 - z1 < float_limit"
  proof -
    have "\<bar>z1 - z0\<bar> < float_limit" using b(2) assms(2) by simp
    from pre_process_six_general [OF b(1) this, of "circle_radius p"] p
    show ?thesis by auto
  qed
  have run: "run_frame p z (d # ds) = Inr [?zero]"
    if b: "(x1 - x0)\<^sup>2 + (y1 - y0)\<^sup>2 < 2 ^ 64" "z0 - z1 < float_limit" for z
  proof -
    from returns [OF b] obtain st where st: "pre_process p = Inr st" by blast
    from frames [OF st, where v = "d_dist st" and w = "d_step st" and z = z]
    have "fst (process_frames st z (d # ds)) = Inr [?zero]" by simp
    then show ?thesis by (simp add: run_frame_def st)
  qed
  show ?thesis using frames returns run by blast
qed

theorem empty_range_all_zero_witness:
  "init_coordinates reversed_parameters = [10, 10, 20, 20, 20, 0] \<and> (0 :: int) < 20
   \<and> pre_process reversed_parameters = Inr reversed_state
   \<and> fst (process_frames reversed_state 10 [zeros (64, 64)]) =
       Inr [\<lparr>dims = (64, 64), buf = replicate (64 * 64) (0 :: 8 word)\<rparr>]
   \<and> (20 - 10 :: int)\<^sup>2 + (20 - 10)\<^sup>2 < 2 ^ 64 \<and> 20 - 0 < float_limit
   \<and> run_frame reversed_parameters 10 [zeros (64, 64)] =
       Inr [\<lparr>dims = (64, 64), buf = replicate (64 * 64) (0 :: 8 word)\<rparr>]"
proof -
  have h: "init_coordinates reversed_parameters = [10, 10, 20, 20, 20, 0]"
    by (simp add: reversed_parameters_def)
  have l: "(0 :: int) < 20" by simp
  have pre: "pre_process reversed_parameters = Inr reversed_state"
    by (simp add: reversed_parameters_def pre_process_six reversed_state_def)
  have b1: "(20 - 10 :: int)\<^sup>2 + (20 - 10)\<^sup>2 < 2 ^ 64" by simp
  have b2: "(20 :: int) - 0 < float_limit" using float_limit_above_64_bits by simp
  note t = empty_range_all_zero [OF h l, of "zeros (64, 64)" "[]"]
  from t pre
  have "fst (process_frames (reversed_state\<lparr>d_dist := d_dist reversed_state,
               d_step := d_step reversed_state\<rparr>) 10 [zeros (64, 64)]) =
          Inr [\<lparr>dims = dims (zeros (64, 64)),
                buf = replicate (fst (dims (zeros (64, 64))) * snd (dims (zeros (64, 64))))
                        (0 :: 8 word)\<rparr>]"
    by blast
  then have f: "fst (process_frames reversed_state 10 [zeros (64, 64)]) =
       Inr [\<lparr>dims = (64, 64), buf = replicate (64 * 64) (0 :: 8 word)\<rparr>]"
    by (simp add: zeros_def)
  from t b1 b2
  have "run_frame reversed_parameters 10 [zeros (64, 64)] =
          Inr [\<lparr>dims = dims (zeros (64, 64)),
                buf = replicate (fst (dims (zeros (64, 64))) * snd (dims (zeros (64, 64))))
                        (0 :: 8 word)\<rparr>]"
    by blast
  then have r: "run_frame reversed_parameters 10 [zeros (64, 64)] =
       Inr [\<lparr>dims = (64, 64), buf = replicate (64 * 64) (0 :: 8 word)\<rparr>]"
    by (simp add: zeros_def)
  show ?thesis using h l pre f b1 b2 r by blast
qed

section \<open>Properties of BaseLoader\<close>

lemma visit_all_NXapp:
  "visit_all visit_NXapp objs self = Inr self' \<Longrightarrow>
   self' = self\<lparr>hits := hits self @
             filter (\<lambda>obj. NXapp_hit (application self) obj = Inr True) objs\<rparr>"
proof (induction objs arbitrary: self)
  case Nil
  then show ?case by simp
next
  case (Cons obj objs)
  from Cons.prems obtain b where b: "NXapp_hit (application self) obj = Inr b"
    by (auto simp add: visit_NXapp_def split: sum.splits)
  let ?s = "if b then self\<lparr>hits := hits self @ [obj]\<rparr> else self"
  have step: "visit_NXapp self obj = Inr ?s" using b by (simp add: visit_NXapp_def)
  from Cons.prems have "visit_all visit_NXapp objs ?s = Inr self'"
    by (simp only: visit_all.simps step sum.case)
  from Cons.IH [OF this] show ?case using b by (cases b) simp_all
qed

lemma visit_all_NXdata:
  "visit_all visit_NXdata objs self = Inr (self\<lparr>hits := hits self @ filter NXdata_hit objs\<rparr>)"
  by (induction objs arbitrary: self) (simp_all add: visit_NXdata_def)

lemma scan_nxdata_hits:
  "scan_nxdata detector objs self = Inr self' \<Longrightarrow>
   self' = self\<lparr>hits := hits self @
             filter (\<lambda>obj. detector_hit detector obj = Inr True) objs\<rparr>"
proof (induction objs arbitrary: self)
  case Nil
  then show ?case by simp
next
  case (Cons obj objs)
  from Cons.prems obtain b where b: "detector_hit detector obj = Inr b"
    by (auto split: sum.splits)
  let ?s = "if b then self\<lparr>hits := hits self @ [obj]\<rparr> else self"
  from Cons.prems b have "scan_nxdata detector objs ?s = Inr self'" by simp
  from Cons.IH [OF this] show ?case using b by (cases b) simp_all
qed

lemma scan_detectors_hits:
  "scan_detectors detectors self = Inr self' \<Longrightarrow>
   self' = self\<lparr>hits := hits self @ concat (map (\<lambda>detector.
       filter (\<lambda>obj. detector_hit detector obj = Inr True) (own_nxdata self)) detectors)\<rparr>"
proof (induction detectors arbitrary: self)
  case Nil
  then show ?case by simp
next
  case (Cons detector detectors)
  from Cons.prems obtain objs where objs: "nxdata self = Some objs"
    by (auto split: option.splits)
  from Cons.prems objs obtain s where s: "scan_nxdata detector objs self = Inr s"
    and rest: "scan_detectors detectors s = Inr self'"
    by (auto split: sum.splits)
  have s_eq: "s = self\<lparr>hits := hits self @
                   filter (\<lambda>obj. detector_hit detector obj = Inr True) objs\<rparr>"
    using scan_nxdata_hits [OF s] .
  have "own_nxdata s = objs" "own_nxdata self = objs"
    using objs by (simp_all add: s_eq own_nxdata_def)
  with Cons.IH [OF rest] show ?case by (simp add: s_eq)
qed

lemma getitem_slash: "getitem nx_file ''/'' = Inr nx_file"
  by (simp add: getitem_def)

lemma visititems_Inr:
  "visititems grp f self = Inr self' \<Longrightarrow> visit_all f (descendants grp) self = Inr self'"
  by (cases grp) simp_all

lemma get_NXapp_result:
  assumes "get_NXapp self ltype nx_file entry = Inr (res, self')"
  shows "\<exists>grp. getitem nx_file entry = Inr grp \<and>
           res = hits self @ filter (\<lambda>obj. NXapp_hit (Some ltype) obj = Inr True) (descendants grp)"
    and "hits self' = res"
proof -
  from assms obtain grp where grp: "getitem nx_file entry = Inr grp"
    by (auto simp add: get_NXapp_def Let_def split: sum.splits)
  from assms grp
  have v: "visititems grp visit_NXapp (self\<lparr>application := Some ltype\<rparr>) = Inr self'"
    and r: "res = hits self'"
    by (auto simp add: get_NXapp_def Let_def split: sum.splits)
  from visit_all_NXapp [OF visititems_Inr [OF v]]
  have "hits self' =
          hits self @ filter (\<lambda>obj. NXapp_hit (Some ltype) obj = Inr True) (descendants grp)"
    by simp
  with grp r show "\<exists>grp. getitem nx_file entry = Inr grp \<and>
           res = hits self @ filter (\<lambda>obj. NXapp_hit (Some ltype) obj = Inr True) (descendants grp)"
    by simp
  from r show "hits self' = res" by simp
qed

lemma get_NXdata_result:
  assumes "get_NXdata self nx_file detector_list = Inr (res, self')"
  shows "res = hits self @ filter NXdata_hit (descendants nx_file) @
              concat (map (\<lambda>detector. filter (\<lambda>obj. detector_hit detector obj = Inr True)
                                         (own_nxdata self)) detector_list)"
    and "hits self' = res"
proof -
  from assms obtain s1 where v: "visititems nx_file visit_NXdata self = Inr s1"
    and sc: "scan_detectors detector_list s1 = Inr self'" and r: "res = hits self'"
    by (auto simp add: get_NXdata_def getitem_slash split: sum.splits)
  have s1: "s1 = self\<lparr>hits := hits self @ filter NXdata_hit (descendants nx_file)\<rparr>"
    using visititems_Inr [OF v] by (simp add: visit_all_NXdata)
  have "own_nxdata s1 = own_nxdata self" by (simp add: s1 own_nxdata_def)
  with scan_detectors_hits [OF sc] r
  show "res = hits self @ filter NXdata_hit (descendants nx_file) @
              concat (map (\<lambda>detector. filter (\<lambda>obj. detector_hit detector obj = Inr True)
                                         (own_nxdata self)) detector_list)"
    by (simp add: s1)
  from r show "hits self' = res" by simp
qed

lemma get_NXdata_Group:
  "get_NXdata self (Group n a ms) detector_list =
     (case scan_detectors detector_list
             (self\<lparr>hits := hits self @ filter NXdata_hit (descendants (Group n a ms))\<rparr>) of
        Inl e \<Rightarrow> Inl e
      | Inr self2 \<Rightarrow> Inr (hits self2, self2))"
  by (simp add: get_NXdata_def getitem_slash visit_all_NXdata del: descendants.simps)

lemma example_NXdata: "filter NXdata_hit (descendants example_file) = [det_group]"
  by (simp add: example_file_def example_entry_def)
     (simp add: NXdata_hit_def det_group_def stxm_subentry_def)

lemma bare_NXdata: "filter NXdata_hit (descendants bare_file) = []"
  by (simp add: bare_file_def NXdata_hit_def)

lemma getitem_entry1: "getitem example_file ''entry1'' = Inr example_entry"
  by (simp add: getitem_def example_file_def)

lemma example_entry_descendants:
  "descendants example_entry =
     [stxm_subentry, Dataset ''/entry1/stxm/definition'' [] ''NXstxm'',
      det_group, Dataset ''/entry1/det/data'' [] ''0'']"
  by (simp add: example_entry_def) (simp add: stxm_subentry_def det_group_def)

lemma example_NXapp_hits:
  "NXapp_hit app stxm_subentry = Inr (app = Some ''NXstxm'')"
  "NXapp_hit app det_group = Inr False"
  "NXapp_hit app (Dataset n [] v) = Inr False"
  by (auto simp add: NXapp_hit_def stxm_subentry_def det_group_def)

lemma visititems_example_entry:
  "visititems example_entry f self = visit_all f (descendants example_entry) self"
  by (simp add: example_entry_def del: descendants.simps)

lemma get_NXdata_after_stxm: "get_NXdata loader_after_stxm example_file [] =
  Inr ([stxm_subentry, det_group], loader_after_stxm\<lparr>hits := [stxm_subentry, det_group]\<rparr>)"
  using example_NXdata
  by (simp add: example_file_def get_NXdata_Group loader_after_stxm_def del: descendants.simps)

lemma get_NXdata_unset_nxdata:
  "get_NXdata (BaseLoader_init None) (Group n a ms) (detector # detectors) =
     Inl AttributeError"
  by (simp add: get_NXdata_Group BaseLoader_init_def del: descendants.simps)

lemma map_sum_Inr_fst:
  "map_sum id fst r = Inr x \<Longrightarrow> \<exists>s. r = Inr (x, s)"
  by (cases r) auto

lemma get_NXdata_fresh_one_group:
  assumes "map_sum id fst (get_NXdata (BaseLoader_init (Some objs))
             (Group ''/'' [] [(''a'', g)]) [''a'']) =
           Inr (spec_named_groups (Group ''/'' [] [(''a'', g)]) [''a''])"
    and g: "g = Group ''/a'' [(''NX_class'', ''NXdata'')] ms"
    and ms: "filter NXdata_hit (descendants g) = []"
  shows "filter (\<lambda>obj. detector_hit ''a'' obj = Inr True) objs = [g]"
proof -
  have hit: "NXdata_hit g" by (simp add: g NXdata_hit_def)
  have coll: "filter NXdata_hit (descendants (Group ''/'' [] [(''a'', g)])) = [g]"
    using hit ms by simp
  have seg: "''a'' \<in> set (split_on CHR ''/'' (name g))" by (simp add: g)
  have spec: "spec_named_groups (Group ''/'' [] [(''a'', g)]) [''a''] = [g, g]"
    using seg by (simp add: spec_named_groups_def coll del: descendants.simps)
  from assms(1) obtain s where
    "get_NXdata (BaseLoader_init (Some objs)) (Group ''/'' [] [(''a'', g)]) [''a''] =
       Inr ([g, g], s)"
    unfolding spec by (blast dest: map_sum_Inr_fst)
  from get_NXdata_result(1) [OF this]
  have "[g, g] = [g] @ filter (\<lambda>obj. detector_hit ''a'' obj = Inr True) objs"
    by (simp add: coll BaseLoader_init_def own_nxdata_def del: descendants.simps)
  then show ?thesis by simp
qed

lemma get_NXdata_no_rescan_of_collected:
  "\<exists>nx_file detector_list.
     map_sum id fst (get_NXdata (BaseLoader_init nxd) nx_file detector_list) \<noteq>
     Inr (spec_named_groups nx_file detector_list)"
proof (cases nxd)
  case None
  have "get_NXdata (BaseLoader_init None) example_file [''det''] = Inl AttributeError"
    using example_NXdata
    by (simp add: example_file_def get_NXdata_Group BaseLoader_init_def del: descendants.simps)
  then have "map_sum id fst (get_NXdata (BaseLoader_init nxd) example_file [''det'']) \<noteq>
     Inr (spec_named_groups example_file [''det''])"
    by (simp add: None)
  then show ?thesis by blast
next
  case (Some objs)
  let ?A = "Group ''/a'' [(''NX_class'', ''NXdata'')] []"
  let ?B = "Group ''/a'' [(''NX_class'', ''NXdata'')] [(''b'', Dataset ''/a/b'' [] [])]"
  show ?thesis
  proof (rule ccontr)
    assume "\<not> ?thesis"
    then have all: "map_sum id fst (get_NXdata (BaseLoader_init (Some objs)) nx_file detector_list) =
       Inr (spec_named_groups nx_file detector_list)" for nx_file detector_list
      by (simp add: Some)
    have a: "filter (\<lambda>obj. detector_hit ''a'' obj = Inr True) objs = [?A]"
      by (rule get_NXdata_fresh_one_group [OF all refl]) simp
    have b: "filter (\<lambda>obj. detector_hit ''a'' obj = Inr True) objs = [?B]"
      by (rule get_NXdata_fresh_one_group [OF all refl]) (simp add: NXdata_hit_def)
    from a b show False by simp
  qed
qed

subsection \<open>The accumulator of a loader\<close>

text \<open>
  Claim C4: every call of \<open>get_NXapp\<close> or \<open>get_NXdata\<close> starts from an empty
  accumulator, so what it returns holds only the matches of its own traversal and does
  not depend on earlier calls. The code empties \<open>hits\<close> in the constructor only: on
  the example file, a search for \<open>NXtomo\<close> that follows a search for \<open>NXstxm\<close>
  on the same loader returns the STXM sub-entry, which its own traversal does not
  match; on a new loader the same search returns the empty list.
\<close>

theorem locator_keeps_earlier_hits:
  "get_NXapp (BaseLoader_init None) ''NXstxm'' example_file ''entry1'' =
     Inr ([stxm_subentry], loader_after_stxm)
   \<and> get_NXapp loader_after_stxm ''NXtomo'' example_file ''entry1'' =
       Inr ([stxm_subentry], loader_after_stxm\<lparr>application := Some ''NXtomo''\<rparr>)
   \<and> get_NXapp (BaseLoader_init None) ''NXtomo'' example_file ''entry1'' =
       Inr ([], (BaseLoader_init None)\<lparr>application := Some ''NXtomo''\<rparr>)"
  by (simp add: get_NXapp_def getitem_entry1 visititems_example_entry example_entry_descendants
      visit_NXapp_def example_NXapp_hits BaseLoader_init_def loader_after_stxm_def)

text \<open>
  Claim C4, amended: only the constructor empties the accumulator. A call that returns
  has made one traversal, and its list is the accumulator as the call found it, followed
  by the matches of that traversal in visiting order (for \<open>get_NXdata\<close>, followed
  further by the matches of the detector loops over \<open>nxdata\<close>); the accumulator is left
  holding that list. So the first call on a new loader returns its own matches only.
\<close>

theorem locator_accumulates:
  "(get_NXapp self ltype nx_file entry = Inr (res, self') \<longrightarrow>
      (\<exists>grp. getitem nx_file entry = Inr grp \<and>
         res = hits self @
               filter (\<lambda>obj. NXapp_hit (Some ltype) obj = Inr True) (descendants grp))
      \<and> hits self' = res)
   \<and> (get_NXdata self nx_file detector_list = Inr (res_d, self_d) \<longrightarrow>
        res_d = hits self @ filter NXdata_hit (descendants nx_file) @
              concat (map (\<lambda>detector. filter (\<lambda>obj. detector_hit detector obj = Inr True)
                                         (own_nxdata self)) detector_list)
        \<and> hits self_d = res_d)
   \<and> hits (BaseLoader_init nxd) = []"
  using get_NXapp_result get_NXdata_result by (simp add: BaseLoader_init_def)

theorem locator_accumulates_witness:
  "get_NXapp loader_after_stxm ''NXtomo'' example_file ''entry1'' =
       Inr ([stxm_subentry], loader_after_stxm\<lparr>application := Some ''NXtomo''\<rparr>)
   \<and> [stxm_subentry] = hits loader_after_stxm @
         filter (\<lambda>obj. NXapp_hit (Some ''NXtomo'') obj = Inr True) (descendants example_entry)
   \<and> get_NXdata loader_after_stxm example_file [] =
       Inr ([stxm_subentry, det_group], loader_after_stxm\<lparr>hits := [stxm_subentry, det_group]\<rparr>)
   \<and> [stxm_subentry, det_group] =
       hits loader_after_stxm @ filter NXdata_hit (descendants example_file)"
proof -
  have a: "get_NXapp loader_after_stxm ''NXtomo'' example_file ''entry1'' =
       Inr ([stxm_subentry], loader_after_stxm\<lparr>application := Some ''NXtomo''\<rparr>)"
    by (simp add: get_NXapp_def getitem_entry1 visititems_example_entry example_entry_descendants
      visit_NXapp_def example_NXapp_hits loader_after_stxm_def)
  note t = locator_accumulates [of loader_after_stxm "''NXtomo''" example_file "''entry1''" "[stxm_subentry]"
             "loader_after_stxm\<lparr>application := Some ''NXtomo''\<rparr>" "[]"
             "[stxm_subentry, det_group]"
             "loader_after_stxm\<lparr>hits := [stxm_subentry, det_group]\<rparr>"]
  from t a obtain grp where g: "getitem example_file ''entry1'' = Inr grp"
    and e: "[stxm_subentry] = hits loader_after_stxm @
         filter (\<lambda>obj. NXapp_hit (Some ''NXtomo'') obj = Inr True) (descendants grp)"
    by blast
  from g have "grp = example_entry" by (simp only: getitem_entry1 sum.inject)
  with e have b: "[stxm_subentry] = hits loader_after_stxm @
         filter (\<lambda>obj. NXapp_hit (Some ''NXtomo'') obj = Inr True) (descendants example_entry)"
    by (simp only:)
  from t get_NXdata_after_stxm have "[stxm_subentry, det_group] =
       hits loader_after_stxm @ filter NXdata_hit (descendants example_file) @
         concat (map (\<lambda>detector. filter (\<lambda>obj. detector_hit detector obj = Inr True)
                                         (own_nxdata loader_after_stxm)) [])"
    by blast
  then have c: "[stxm_subentry, det_group] =
       hits loader_after_stxm @ filter NXdata_hit (descendants example_file)"
    by (simp only: list.map concat.simps append_Nil2)
  show ?thesis using a get_NXdata_after_stxm b c by blast
qed

subsection \<open>A detector list that is not empty\<close>

text \<open>
  Claim C5: a search never raises, and returns the empty list when no node matches.
  \<open>get_NXdata\<close> with a detector name reads \<open>self.nxdata\<close>, which \<open>BaseLoader\<close> never
  assigns: on a file with no data-class node at all, the call raises AttributeError
  instead of returning the empty list (lemma \<open>get_NXdata_unset_nxdata\<close> gives the
  same for every file).
\<close>

theorem get_NXdata_raises_on_detector: "get_NXdata (BaseLoader_init None) bare_file [''det''] = Inl AttributeError"
  using bare_NXdata
  by (simp add: bare_file_def get_NXdata_Group BaseLoader_init_def del: descendants.simps)

text \<open>
  Claim C6: \<open>get_NXdata\<close> collects the data-class nodes unfiltered and then appends,
  for each detector name, every collected node that has the name among its child keys
  or the segments of its path. On the example file and the detector \<open>det\<close> that is
  the detector group twice. The code scans \<open>self.nxdata\<close>, not the nodes it has
  collected: with the attribute missing it raises AttributeError, and with an empty
  list there it returns the detector group once. Lemma
  \<open>get_NXdata_no_rescan_of_collected\<close> shows that no value of the attribute makes
  the code agree with the claim on every file.
\<close>

theorem get_NXdata_rescan_example: "get_NXdata (BaseLoader_init None) example_file [''det''] = Inl AttributeError
  \<and> get_NXdata (BaseLoader_init (Some [])) example_file [''det''] =
      Inr ([det_group], (BaseLoader_init (Some []))\<lparr>hits := [det_group]\<rparr>)
  \<and> spec_named_groups example_file [''det''] = [det_group, det_group]"
proof -
  have "spec_named_groups example_file [''det''] = [det_group, det_group]"
    by (simp add: spec_named_groups_def example_NXdata) (simp add: det_group_def child_keys_def)
  then show ?thesis
    using example_NXdata
    by (simp add: example_file_def get_NXdata_Group BaseLoader_init_def del: descendants.simps)
qed

end
